theory Spec2Isabelle
  imports Main
begin

section \<open>JavaScript values and strings\<close>

text \<open>
  The values that the program passes around, throws and rejects promises with. Strings are
  sequences of code units in the Latin-1 range; numbers are integers. An error object is
  represented by its class and the one field the program reads or writes: the message of an
  \<open>Error\<close>, the name of a \<open>DOMException\<close> (\<open>AbortError\<close>, \<open>TimeoutError\<close>), the
  \<open>errors\<close> array of an \<open>AggregateError\<close>. A \<open>TypeError\<close> is one raised by the engine
  (destructuring \<open>undefined\<close>) and a \<open>RangeError\<close> one raised by the platform (an argument
  out of range); their messages are not modelled.

  Modelled from the spec: \<open>IpNotFoundError\<close> is declared in \<open>core.js\<close>, which is not among
  the sources; the spec describes it as the named error type carrying \<open>{cause}\<close>, and
  \<open>new IpNotFoundError({cause: lastError})\<close> is \<open>IpNotFoundError lastError\<close> here.
\<close>

datatype jsval =
    Undefined
  | Null
  | Bool bool
  | Number int
  | Str string
  | Error string
  | TypeError
  | RangeError
  | DOMException string
  | AggregateError "jsval list"
  | IpNotFoundError jsval

text \<open>The operand test of \<open>??\<close>: \<open>a ?? b\<close> is \<open>b\<close> exactly when \<open>a\<close> is \<open>undefined\<close> or \<open>null\<close>.\<close>

fun nullish :: "jsval \<Rightarrow> bool" where
  "nullish Undefined = True"
| "nullish Null = True"
| "nullish _ = False"

text \<open>
  \<open>String.prototype.trim\<close> removes white space and line terminators from both ends. Among
  the code units below 256 these are TAB, LF, VT, FF, CR, SPACE and NBSP.
\<close>

definition isWhiteSpace :: "char \<Rightarrow> bool" where
  "isWhiteSpace c =
     (c \<in> set [CHR 0x09, CHR 0x0A, CHR 0x0B, CHR 0x0C, CHR 0x0D, CHR 0x20, CHR 0xA0])"

definition trim :: "string \<Rightarrow> string" where
  "trim s = rev (dropWhile isWhiteSpace (rev (dropWhile isWhiteSpace s)))"

section \<open>The address predicates of \<open>node:net\<close>\<close>

text \<open>
  \<open>isIPv4\<close> and \<open>isIPv6\<close> are built into Node (\<open>lib/internal/net.js\<close>). They test their
  argument against two regular expressions, \<open>IPv4Reg\<close> and \<open>IPv6Reg\<close>, both anchored at
  the start and at the end of the string. The expressions are transcribed below, one
  definition for each constant of \<open>net.js\<close>. \<open>after r s\<close> lists the rests of \<open>s\<close> that
  remain once \<open>r\<close> has matched a prefix of it, so \<open>r\<close> matches all of \<open>s\<close> when the empty
  rest is among them. \<open>Cls cs\<close> is a character class, \<open>Many1 cs\<close> is \<open>[cs]{1,}\<close>.
\<close>

datatype rexp =
    Eps
  | Cls string
  | Many1 string
  | Seq rexp rexp
  | Alt rexp rexp

fun after :: "rexp \<Rightarrow> string \<Rightarrow> string list" where
  "after Eps s = [s]"
| "after (Cls cs) s = (case s of [] \<Rightarrow> [] | c # t \<Rightarrow> if c \<in> set cs then [t] else [])"
| "after (Many1 cs) s =
     map (\<lambda>n. drop n s) [1 ..< Suc (length (takeWhile (\<lambda>c. c \<in> set cs) s))]"
| "after (Seq r1 r2) s = concat (map (after r2) (after r1 s))"
| "after (Alt r1 r2) s = after r1 s @ after r2 s"

definition test :: "rexp \<Rightarrow> string \<Rightarrow> bool" where
  "test r s = ([] \<in> set (after r s))"

text \<open>
  Two checks on an expression: \<open>avoids c r\<close> when no character class of \<open>r\<close> holds \<open>c\<close>, and
  \<open>needs c r\<close> when every way through \<open>r\<close> passes a class that holds only \<open>c\<close>.
\<close>

fun avoids :: "char \<Rightarrow> rexp \<Rightarrow> bool" where
  "avoids c Eps = True"
| "avoids c (Cls cs) = (c \<notin> set cs)"
| "avoids c (Many1 cs) = (c \<notin> set cs)"
| "avoids c (Seq r1 r2) = (avoids c r1 \<and> avoids c r2)"
| "avoids c (Alt r1 r2) = (avoids c r1 \<and> avoids c r2)"

fun needs :: "char \<Rightarrow> rexp \<Rightarrow> bool" where
  "needs c Eps = False"
| "needs c (Cls cs) = (set cs = {c})"
| "needs c (Many1 cs) = (set cs = {c})"
| "needs c (Seq r1 r2) = (needs c r1 \<or> needs c r2)"
| "needs c (Alt r1 r2) = (needs c r1 \<and> needs c r2)"

text \<open>\<open>r{n}\<close>, \<open>r{0,k}\<close>, \<open>r{n,m}\<close> and \<open>r?\<close>.\<close>

primrec exactly :: "nat \<Rightarrow> rexp \<Rightarrow> rexp" where
  "exactly 0 r = Eps"
| "exactly (Suc n) r = Seq r (exactly n r)"

primrec upto_times :: "nat \<Rightarrow> rexp \<Rightarrow> rexp" where
  "upto_times 0 r = Eps"
| "upto_times (Suc k) r = Alt Eps (Seq r (upto_times k r))"

definition between :: "nat \<Rightarrow> nat \<Rightarrow> rexp \<Rightarrow> rexp" where
  "between n m r = Seq (exactly n r) (upto_times (m - n) r)"

definition opt :: "rexp \<Rightarrow> rexp" where
  "opt r = Alt r Eps"

definition digit :: rexp where
  "digit = Cls ''0123456789''"

text \<open>\<open>v4Seg = (?:25[0-5]|2[0-4]\d|1\d\d|[1-9]\d|\d)\<close>\<close>

definition v4Seg :: rexp where
  "v4Seg =
     Alt (Seq (Cls ''2'') (Seq (Cls ''5'') (Cls ''012345'')))
    (Alt (Seq (Cls ''2'') (Seq (Cls ''01234'') digit))
    (Alt (Seq (Cls ''1'') (Seq digit digit))
    (Alt (Seq (Cls ''123456789'') digit)
         digit)))"

text \<open>\<open>v4Str = (?:${v4Seg}\.){3}${v4Seg}\<close>\<close>

definition v4Str :: rexp where
  "v4Str = Seq (exactly 3 (Seq v4Seg (Cls ''.''))) v4Seg"

definition IPv4Reg :: rexp where
  "IPv4Reg = v4Str"

text \<open>\<open>v6Seg = (?:[0-9a-fA-F]{1,4})\<close>\<close>

definition v6Seg :: rexp where
  "v6Seg = between 1 4 (Cls ''0123456789abcdefABCDEF'')"

definition colon :: rexp where
  "colon = Cls '':''"

text \<open>\<open>(?:${v6Seg}:){n}\<close> and \<open>(?::${v6Seg}){n,m}\<close>\<close>

definition segs_colon :: "nat \<Rightarrow> rexp" where
  "segs_colon n = exactly n (Seq v6Seg colon)"

definition colon_segs :: "nat \<Rightarrow> nat \<Rightarrow> rexp" where
  "colon_segs n m = between n m (Seq colon v6Seg)"

text \<open>
  The eight alternatives of \<open>IPv6Reg\<close>, by the number of leading groups, followed by the
  optional zone \<open>(?:%[0-9a-zA-Z-.:]{1,})?\<close>.
\<close>

definition v6Alternatives :: "rexp list" where
  "v6Alternatives =
    [ Seq (segs_colon 7) (Alt v6Seg colon),
      Seq (segs_colon 6) (Alt v4Str (Alt (Seq colon v6Seg) colon)),
      Seq (segs_colon 5) (Alt (Seq colon v4Str) (Alt (colon_segs 1 2) colon)),
      Seq (segs_colon 4)
        (Alt (Seq (colon_segs 0 1) (Seq colon v4Str)) (Alt (colon_segs 1 3) colon)),
      Seq (segs_colon 3)
        (Alt (Seq (colon_segs 0 2) (Seq colon v4Str)) (Alt (colon_segs 1 4) colon)),
      Seq (segs_colon 2)
        (Alt (Seq (colon_segs 0 3) (Seq colon v4Str)) (Alt (colon_segs 1 5) colon)),
      Seq (segs_colon 1)
        (Alt (Seq (colon_segs 0 4) (Seq colon v4Str)) (Alt (colon_segs 1 6) colon)),
      Seq colon
        (Alt (Seq (colon_segs 0 5) (Seq colon v4Str)) (Alt (colon_segs 1 7) colon)) ]"

fun alts :: "rexp list \<Rightarrow> rexp" where
  "alts [] = Cls []"
| "alts [r] = r"
| "alts (r # rs) = Alt r (alts rs)"

definition zone :: rexp where
  "zone = Seq (Cls ''%'')
     (Many1 ''0123456789abcdefghijklmnopqrstuvwxyzABCDEFGHIJKLMNOPQRSTUVWXYZ-.:'')"

definition IPv6Reg :: rexp where
  "IPv6Reg = Seq (alts v6Alternatives) (opt zone)"

definition isIPv4 :: "string \<Rightarrow> bool" where
  "isIPv4 s = test IPv4Reg s"

definition isIPv6 :: "string \<Rightarrow> bool" where
  "isIPv6 s = test IPv6Reg s"

section \<open>The validator\<close>

text \<open>
  \<^verbatim>\<open>const validateIp = (ip, version) =>
    Boolean(ip && (version === 'v6' ? isIPv6(ip) : isIPv4(ip)));\<close>
  A string is truthy when it is not empty. The version is compared with \<open>===\<close>, so it is
  kept as a value of any type.
\<close>

definition validateIp :: "string \<Rightarrow> jsval \<Rightarrow> bool" where
  "validateIp ip version =
     (ip \<noteq> [] \<and> (if version = Str ''v6'' then isIPv6 ip else isIPv4 ip))"

section \<open>Promises\<close>

text \<open>
  The program runs on one event loop, so a run is determined by the instants (in
  milliseconds) at which the network answers and at which a cancellation fires. A promise
  is represented by its fate: \<open>Fulfilled t v\<close> and \<open>Rejected t e\<close> settle at instant \<open>t\<close>,
  \<open>Pending\<close> never settles. Promise jobs take no time: an \<open>await\<close> continues at the instant
  at which the awaited promise settles.
\<close>

datatype 'a promise = Pending | Fulfilled nat 'a | Rejected nat jsval

fun settles_before :: "'a promise \<Rightarrow> nat \<Rightarrow> bool" where
  "settles_before Pending ta = False"
| "settles_before (Fulfilled t v) ta = (t < ta)"
| "settles_before (Rejected t e) ta = (t < ta)"

text \<open>\<open>await p\<close> followed by the rest \<open>k\<close> of an async function.\<close>

definition await :: "'a promise \<Rightarrow> (nat \<Rightarrow> 'a \<Rightarrow> 'b promise) \<Rightarrow> 'b promise" where
  "await p k = (case p of Pending \<Rightarrow> Pending
                | Rejected t e \<Rightarrow> Rejected t e
                | Fulfilled t v \<Rightarrow> k t v)"

text \<open>
  \<open>Promise.any\<close>, called at instant \<open>now\<close>: it fulfils with the value of the promise that
  fulfils first (the earlier one in the list when two fulfil at the same instant). When
  every promise has rejected it rejects, at the instant of the last rejection, with an
  \<open>AggregateError\<close> whose \<open>errors\<close> are the rejection reasons in the order of the list, not
  in the order of the rejections. For the empty list it rejects at once.
\<close>

fun first_fulfilled :: "'a promise list \<Rightarrow> (nat \<times> 'a) option" where
  "first_fulfilled [] = None"
| "first_fulfilled (Fulfilled t v # ps) =
     (case first_fulfilled ps of
        None \<Rightarrow> Some (t, v)
      | Some (t', v') \<Rightarrow> if t' < t then Some (t', v') else Some (t, v))"
| "first_fulfilled (Pending # ps) = first_fulfilled ps"
| "first_fulfilled (Rejected t e # ps) = first_fulfilled ps"

fun is_pending :: "'a promise \<Rightarrow> bool" where
  "is_pending Pending = True"
| "is_pending _ = False"

fun reason :: "'a promise \<Rightarrow> jsval" where
  "reason (Rejected t e) = e"
| "reason _ = Undefined"

fun settled_at :: "'a promise \<Rightarrow> nat" where
  "settled_at (Rejected t e) = t"
| "settled_at (Fulfilled t v) = t"
| "settled_at Pending = 0"

definition Promise_any :: "nat \<Rightarrow> 'a promise list \<Rightarrow> 'a promise" where
  "Promise_any now ps =
     (case first_fulfilled ps of
        Some (t, v) \<Rightarrow> Fulfilled t v
      | None \<Rightarrow>
          if list_ex is_pending ps then Pending
          else Rejected (foldr max (map settled_at ps) now) (AggregateError (map reason ps)))"

section \<open>Cancellation signals\<close>

text \<open>
  An \<open>AbortSignal\<close> is represented by its fate as well: \<open>Aborts ta r\<close> fires at instant \<open>ta\<close>
  with \<open>signal.reason = r\<close>. An abort of instant \<open>ta\<close> comes before the network answers of
  instant \<open>ta\<close>, so a signal is aborted at \<open>now\<close> when \<open>ta \<le> now\<close>.
\<close>

datatype abort_signal = NeverAborts | Aborts nat jsval

fun aborted :: "abort_signal \<Rightarrow> nat \<Rightarrow> bool" where
  "aborted NeverAborts now = False"
| "aborted (Aborts ta r) now = (ta \<le> now)"

fun signal_reason :: "abort_signal \<Rightarrow> jsval" where
  "signal_reason NeverAborts = Undefined"
| "signal_reason (Aborts ta r) = r"

text \<open>
  \<open>AbortSignal.timeout\<close> of Node: a delay that is not an unsigned 32-bit integer makes it
  throw a \<open>RangeError\<close>; the signal is aborted by a timer, and a timer whose delay is not
  between 1 and \<open>2^31 - 1\<close> milliseconds runs after 1 millisecond.
\<close>

definition timer_delay :: "nat \<Rightarrow> nat" where
  "timer_delay ms = (if 1 \<le> ms \<and> ms \<le> 2147483647 then ms else 1)"

definition AbortSignal_timeout :: "nat \<Rightarrow> nat \<Rightarrow> jsval + abort_signal" where
  "AbortSignal_timeout now ms =
     (if 4294967295 < ms then Inl RangeError
      else Inr (Aborts (now + timer_delay ms) (DOMException ''TimeoutError'')))"

text \<open>
  \<open>AbortSignal.any\<close>: the first source that is already aborted, else the source that fires
  first (the earlier one in the list when two fire at the same instant).
\<close>

fun earliest :: "abort_signal list \<Rightarrow> abort_signal" where
  "earliest [] = NeverAborts"
| "earliest (NeverAborts # ss) = earliest ss"
| "earliest (Aborts t r # ss) =
     (case earliest ss of
        NeverAborts \<Rightarrow> Aborts t r
      | Aborts t' r' \<Rightarrow> if t' < t then Aborts t' r' else Aborts t r)"

definition AbortSignal_any :: "nat \<Rightarrow> abort_signal list \<Rightarrow> abort_signal" where
  "AbortSignal_any now signals =
     (case find (\<lambda>s. aborted s now) signals of
        Some s \<Rightarrow> s
      | None \<Rightarrow> earliest signals)"

text \<open>
  An operation of the platform that was started at \<open>now\<close> under a signal (\<open>fetch\<close>, reading a
  response body) rejects with the signal's reason when the signal fires before the
  operation has completed, at once when the signal is already aborted.
\<close>

fun abortable :: "abort_signal option \<Rightarrow> nat \<Rightarrow> 'a promise \<Rightarrow> 'a promise" where
  "abortable None now p = p"
| "abortable (Some NeverAborts) now p = p"
| "abortable (Some (Aborts ta r)) now p =
     (if settles_before p ta then p else Rejected (max ta now) r)"

section \<open>The network\<close>

text \<open>
  What the resolvers and the HTTPS services do is a parameter of a run: for every request,
  by its arguments and the instant at which it is issued, whether it is answered at all,
  after which delay and with what. \<open>query\<close> is \<open>socket.query\<close> of \<open>dns-socket\<close> (by socket
  type, resolver, record name and record type), with the \<open>data\<close> of its answers as strings;
  the socket's own timeout of 30 seconds is one of the errors it may answer with. \<open>fetch\<close> is
  the global \<open>fetch\<close>, and \<open>body\<close> is what \<open>response.text()\<close> gives, after a further delay.
\<close>

datatype dns_result = DnsError jsval | DnsAnswers "string list"

datatype body_result = BodyError jsval | BodyText string

record response =
  ok :: bool
  status :: nat
  statusText :: string
  body :: "(nat \<times> body_result) option"

datatype fetch_result = FetchError jsval | FetchResponse response

record world =
  query :: "string \<Rightarrow> string \<Rightarrow> string \<Rightarrow> string \<Rightarrow> nat \<Rightarrow> (nat \<times> dns_result) option"
  fetch :: "string \<Rightarrow> nat \<Rightarrow> (nat \<times> fetch_result) option"

text \<open>The calls of the transport functions that a run makes, each with its instant.\<close>

datatype call = SocketQuery string string string string | Fetch string

type_synonym calls = "(nat \<times> call) list"

definition socketQuery ::
  "world \<Rightarrow> string \<Rightarrow> string \<Rightarrow> string \<Rightarrow> string \<Rightarrow> nat \<Rightarrow> string list promise" where
  "socketQuery W sock server qname qtype now =
     (case query W sock server qname qtype now of
        None \<Rightarrow> Pending
      | Some (d, DnsError e) \<Rightarrow> Rejected (now + d) e
      | Some (d, DnsAnswers answers) \<Rightarrow> Fulfilled (now + d) answers)"

definition fetch_signal :: "world \<Rightarrow> string \<Rightarrow> abort_signal option \<Rightarrow> nat \<Rightarrow> response promise" where
  "fetch_signal W url abortSignal now =
     abortable abortSignal now
       (case fetch W url now of
          None \<Rightarrow> Pending
        | Some (d, FetchError e) \<Rightarrow> Rejected (now + d) e
        | Some (d, FetchResponse r) \<Rightarrow> Fulfilled (now + d) r)"

definition response_text :: "response \<Rightarrow> abort_signal option \<Rightarrow> nat \<Rightarrow> string promise" where
  "response_text r abortSignal now =
     abortable abortSignal now
       (case body r of
          None \<Rightarrow> Pending
        | Some (d, BodyError e) \<Rightarrow> Rejected (now + d) e
        | Some (d, BodyText s) \<Rightarrow> Fulfilled (now + d) s)"

text \<open>A number in a template literal: its decimal digits.\<close>

fun decimal :: "nat \<Rightarrow> string" where
  "decimal n =
     (if n < 10 then [char_of (48 + n)]
      else decimal (n div 10) @ [char_of (48 + n mod 10)])"

section \<open>Options and constants\<close>

text \<open>
  The options object of a call. A field is \<open>None\<close> when the key is absent; an object that
  holds a key with the value \<open>undefined\<close> is not represented. \<open>signal\<close> is the caller's
  \<open>AbortSignal\<close>; \<open>timeout\<close> is a number of milliseconds, a natural number of any size.
\<close>

record options =
  timeout :: "nat option"
  signal :: "abort_signal option"
  onlyHttps :: "bool option"
  fallbackUrls :: "string list option"

text \<open>
  \<open>constants.js\<close> is not among the sources, so its tables are parameters: \<open>dnsServers\<close>, a
  list of objects that hold, under the keys \<open>v4\<close> and \<open>v6\<close>, the resolvers to ask and the
  question to ask them (\<open>name\<close>, \<open>type\<close> and an optional \<open>transform\<close> of the answer);
  \<open>httpsUrls\<close>, the built-in URLs under the same keys; and \<open>defaults\<close>, the default options.
\<close>

record dns_config =
  servers :: "string list"
  name :: string
  type :: string
  transform :: "(string \<Rightarrow> string option) option"

record constants =
  dnsServers :: "(string \<Rightarrow> dns_config) list"
  httpsUrls :: "string \<Rightarrow> string list"
  defaults :: options

section \<open>The candidate races\<close>

text \<open>
  Both races end with the same handler:
  \<^verbatim>\<open>try { return await Promise.any(...); }
  catch (error) {
    const errors = error.errors ?? [];
    const lastError = errors.at?.(-1) ?? error;
    throw new IpNotFoundError({cause: lastError});
  }\<close>
  \<open>Promise.any\<close> rejects with an \<open>AggregateError\<close> only; a value without an \<open>errors\<close> array
  would be the cause itself. \<open>errors.at(-1)\<close> is the last element, \<open>undefined\<close> for an empty
  array.
\<close>

fun errors_of :: "jsval \<Rightarrow> jsval list" where
  "errors_of (AggregateError errors) = errors"
| "errors_of _ = []"

definition at_last :: "jsval list \<Rightarrow> jsval" where
  "at_last errors = (if errors = [] then Undefined else last errors)"

definition lastError :: "jsval \<Rightarrow> jsval" where
  "lastError error =
     (let errors = errors_of error; e = at_last errors
      in if nullish e then error else e)"

definition or_not_found :: "'a promise \<Rightarrow> 'a promise" where
  "or_not_found p =
     (case p of
        Rejected t error \<Rightarrow> Rejected t (IpNotFoundError (lastError error))
      | _ \<Rightarrow> p)"

subsection \<open>HTTPS\<close>

text \<open>
  One element of \<open>requests\<close>:
  \<^verbatim>\<open>async url => {
    const response = await fetch(url, {signal: abortSignal});
    if (!response.ok) {
      throw new Error(`HTTP ${response.status}: ${response.statusText}`);
    }
    const responseText = await response.text();
    const ip = responseText.trim();
    if (validateIp(ip, version)) { return ip; }
    throw new Error('Invalid IP');
  }\<close>
\<close>

definition request :: "world \<Rightarrow> string \<Rightarrow> abort_signal option \<Rightarrow> nat \<Rightarrow> string \<Rightarrow> string promise" where
  "request W version abortSignal now url =
     await (fetch_signal W url abortSignal now) (\<lambda>t response.
       if \<not> ok response
       then Rejected t (Error (''HTTP '' @ decimal (status response) @ '': '' @ statusText response))
       else await (response_text response abortSignal t) (\<lambda>t' responseText.
         let ip = trim responseText
         in if validateIp ip (Str version) then Fulfilled t' ip
            else Rejected t' (Error ''Invalid IP'')))"

definition urlList :: "string list \<Rightarrow> options \<Rightarrow> string list" where
  "urlList urls options = urls @ (case fallbackUrls options of None \<Rightarrow> [] | Some us \<Rightarrow> us)"

definition requests ::
  "world \<Rightarrow> string \<Rightarrow> string list \<Rightarrow> options \<Rightarrow> abort_signal option \<Rightarrow> nat \<Rightarrow> string promise list" where
  "requests W version urls options abortSignal now =
     map (request W version abortSignal now) (urlList urls options)"

definition queryHttps ::
  "world \<Rightarrow> string \<Rightarrow> string list \<Rightarrow> options \<Rightarrow> abort_signal option \<Rightarrow> nat
     \<Rightarrow> string promise \<times> calls" where
  "queryHttps W version urls options abortSignal now =
     (or_not_found (Promise_any now (requests W version urls options abortSignal now)),
      map (\<lambda>url. (now, Fetch url)) (urlList urls options))"

subsection \<open>DNS\<close>

text \<open>\<open>transform?.(response) ?? response\<close>\<close>

definition applyTransform :: "(string \<Rightarrow> string option) option \<Rightarrow> string \<Rightarrow> string" where
  "applyTransform f response =
     (case f of
        None \<Rightarrow> response
      | Some g \<Rightarrow> (case g response of None \<Rightarrow> response | Some ip \<Rightarrow> ip))"

definition socketType :: "string \<Rightarrow> string" where
  "socketType version = (if version = ''v6'' then ''udp6'' else ''udp4'')"

text \<open>
  \<^verbatim>\<open>const dnsResponse = await socketQuery({questions: [{name, type}]}, 53, server);
  const {data} = dnsResponse.answers[0];
  const response = (typeof data === 'string' ? data : data.toString()).trim();
  const ip = transform?.(response) ?? response;
  if (validateIp(ip, version)) { return ip; }
  throw new Error('Invalid IP');\<close>
  Destructuring the first answer of an empty list raises a \<open>TypeError\<close>. The socket that
  the function creates and destroys in its \<open>finally\<close> block has no part in the result and is
  not recorded. The query takes no cancellation signal.
\<close>

definition createDnsQuery :: "world \<Rightarrow> string \<Rightarrow> string \<Rightarrow> dns_config \<Rightarrow> nat \<Rightarrow> string promise" where
  "createDnsQuery W server version question now =
     await (socketQuery W (socketType version) server (name question) (type question) now)
       (\<lambda>t answers.
          case answers of
            [] \<Rightarrow> Rejected t TypeError
          | data # _ \<Rightarrow>
              let response = trim data;
                  ip = applyTransform (transform question) response
              in if validateIp ip (Str version) then Fulfilled t ip
                 else Rejected t (Error ''Invalid IP''))"

text \<open>
  \<^verbatim>\<open>dnsServers.flatMap(serverConfig => {
    const {servers, ...question} = serverConfig[version];
    return servers.map(server => createDnsQuery(server, version, question));
  })\<close>
\<close>

definition dnsTargets :: "constants \<Rightarrow> string \<Rightarrow> (string \<times> dns_config) list" where
  "dnsTargets C version =
     concat (map (\<lambda>serverConfig.
                    map (\<lambda>server. (server, serverConfig version))
                        (servers (serverConfig version)))
                 (dnsServers C))"

definition queries :: "constants \<Rightarrow> world \<Rightarrow> string \<Rightarrow> nat \<Rightarrow> string promise list" where
  "queries C W version now =
     map (\<lambda>(server, question). createDnsQuery W server version question now)
         (dnsTargets C version)"

definition queryDns :: "constants \<Rightarrow> world \<Rightarrow> string \<Rightarrow> nat \<Rightarrow> string promise \<times> calls" where
  "queryDns C W version now =
     (or_not_found (Promise_any now (queries C W version now)),
      map (\<lambda>(server, question).
             (now, SocketQuery (socketType version) server (name question) (type question)))
          (dnsTargets C version))"

section \<open>Fallback from DNS to HTTPS\<close>

text \<open>
  \<^verbatim>\<open>const queryAll = async (version, options, abortSignal) => {
    try { return await queryDns(version); }
    catch { return queryHttps(version, httpsUrls[version], options, abortSignal); }
  };\<close>
  The HTTPS race starts at the instant at which the DNS race rejects.
\<close>

definition queryAll ::
  "constants \<Rightarrow> world \<Rightarrow> string \<Rightarrow> options \<Rightarrow> abort_signal option \<Rightarrow> nat
     \<Rightarrow> string promise \<times> calls" where
  "queryAll C W version options abortSignal now =
     (case queryDns C W version now of
        (Rejected t e, dnsCalls) \<Rightarrow>
          (case queryHttps W version (httpsUrls C version) options abortSignal t of
             (p, httpsCalls) \<Rightarrow> (p, dnsCalls @ httpsCalls))
      | (p, dnsCalls) \<Rightarrow> (p, dnsCalls))"

text \<open>
  \<^verbatim>\<open>const nodeQueryFunction = (version, options, abortSignal) => options.onlyHttps
    ? queryHttps(version, httpsUrls[version], options, abortSignal)
    : queryAll(version, options, abortSignal);\<close>
\<close>

definition nodeQueryFunction ::
  "constants \<Rightarrow> world \<Rightarrow> string \<Rightarrow> options \<Rightarrow> abort_signal option \<Rightarrow> nat
     \<Rightarrow> string promise \<times> calls" where
  "nodeQueryFunction C W version options abortSignal now =
     (if onlyHttps options = Some True
      then queryHttps W version (httpsUrls C version) options abortSignal now
      else queryAll C W version options abortSignal now)"

section \<open>The cancellation envelope\<close>

text \<open>
  \<^verbatim>\<open>const createAbortSignal = (timeout, signal) => {
    if (signal) { signal.throwIfAborted(); }
    if (!timeout && !signal) { return undefined; }
    const signals = [];
    if (timeout) { signals.push(AbortSignal.timeout(timeout)); }
    if (signal) { signals.push(signal); }
    return signals.length === 1 ? signals[0] : AbortSignal.any(signals);
  };\<close>
  A function that can throw returns \<open>Inl\<close> of what it throws. A timeout of \<open>0\<close> is falsy.
  \<open>AbortSignal.timeout(timeout)\<close> can throw, before the caller's signal is pushed.
\<close>

definition truthy_timeout :: "nat option \<Rightarrow> bool" where
  "truthy_timeout timeout' = (case timeout' of None \<Rightarrow> False | Some ms \<Rightarrow> ms \<noteq> 0)"

definition createAbortSignal ::
  "nat option \<Rightarrow> abort_signal option \<Rightarrow> nat \<Rightarrow> jsval + abort_signal option" where
  "createAbortSignal timeout' signal' now =
     (case (case signal' of Some s \<Rightarrow> if aborted s now then Some (signal_reason s) else None
                          | None \<Rightarrow> None) of
        Some thrown \<Rightarrow> Inl thrown
      | None \<Rightarrow>
          if \<not> truthy_timeout timeout' \<and> signal' = None then Inr None
          else
            (case (if truthy_timeout timeout'
                   then (case AbortSignal_timeout now (the timeout') of
                           Inl thrown \<Rightarrow> Inl thrown
                         | Inr timeoutSignal \<Rightarrow> Inr [timeoutSignal])
                   else Inr []) of
               Inl thrown \<Rightarrow> Inl thrown
             | Inr pushed \<Rightarrow>
                 let signals = pushed @ (case signal' of Some s \<Rightarrow> [s] | None \<Rightarrow> [])
                 in Inr (Some (if length signals = 1 then signals ! 0
                               else AbortSignal_any now signals))))"

text \<open>
  \<^verbatim>\<open>const withAbortSignal = async (promise, abortSignal) => {
    if (!abortSignal) { return promise; }
    abortSignal.throwIfAborted();
    const abortPromise = new Promise((_resolve, reject) => {
      abortSignal.addEventListener('abort', () => reject(abortSignal.reason), {once: true});
    });
    return Promise.race([promise, abortPromise]);
  };\<close>
  The listener rejects \<open>abortPromise\<close> while the abort is dispatched; a settlement of
  \<open>promise\<close> that the same abort causes (a \<open>fetch\<close> that rejects with the reason) reaches the
  race some promise jobs later, and a network answer of the same instant comes after the
  abort. So \<open>promise\<close> decides the race when it settles at an instant before the abort,
  and \<open>abortPromise\<close> otherwise.
\<close>

definition withAbortSignal :: "'a promise \<Rightarrow> abort_signal option \<Rightarrow> nat \<Rightarrow> 'a promise" where
  "withAbortSignal promise abortSignal now =
     (case abortSignal of
        None \<Rightarrow> promise
      | Some s \<Rightarrow>
          if aborted s now then Rejected now (signal_reason s)
          else (case s of
                  NeverAborts \<Rightarrow> promise
                | Aborts ta r \<Rightarrow> if settles_before promise ta then promise else Rejected ta r))"

text \<open>
  A call either throws or returns a promise.
  \<^verbatim>\<open>const createQuery = (version, queryFunction, options) => {
    const abortSignal = createAbortSignal(options.timeout, options.signal);
    return withAbortSignal(queryFunction(abortSignal), abortSignal);
  };\<close>
\<close>

datatype 'a completion = Throws jsval | Returns 'a

definition createQuery ::
  "string \<Rightarrow> (abort_signal option \<Rightarrow> nat \<Rightarrow> string promise \<times> calls) \<Rightarrow> options \<Rightarrow> nat
     \<Rightarrow> string promise completion \<times> calls" where
  "createQuery version queryFunction options now =
     (case createAbortSignal (timeout options) (signal options) now of
        Inl thrown \<Rightarrow> (Throws thrown, [])
      | Inr abortSignal \<Rightarrow>
          (case queryFunction abortSignal now of
             (promise, cs) \<Rightarrow> (Returns (withAbortSignal promise abortSignal now), cs)))"

text \<open>\<open>{...defaults, ...options}\<close>: the caller's value wins where the key is present.\<close>

definition merge :: "options \<Rightarrow> options \<Rightarrow> options" where
  "merge d opts =
     \<lparr> timeout = (case timeout opts of None \<Rightarrow> timeout d | Some v \<Rightarrow> Some v),
       signal = (case signal opts of None \<Rightarrow> signal d | Some v \<Rightarrow> Some v),
       onlyHttps = (case onlyHttps opts of None \<Rightarrow> onlyHttps d | Some v \<Rightarrow> Some v),
       fallbackUrls = (case fallbackUrls opts of None \<Rightarrow> fallbackUrls d | Some v \<Rightarrow> Some v) \<rparr>"

text \<open>
  \<^verbatim>\<open>const createIpFunction = (version, queryFunction) => (options = {}) => {
    const mergedOptions = {...defaults, ...options};
    return createQuery(version,
      abortSignal => queryFunction(version, mergedOptions, abortSignal), mergedOptions);
  };\<close>
\<close>

definition createIpFunction ::
  "constants \<Rightarrow> string
     \<Rightarrow> (string \<Rightarrow> options \<Rightarrow> abort_signal option \<Rightarrow> nat \<Rightarrow> string promise \<times> calls)
     \<Rightarrow> options \<Rightarrow> nat \<Rightarrow> string promise completion \<times> calls" where
  "createIpFunction C version queryFunction opts now =
     (let mergedOptions = merge (defaults C) opts
      in createQuery version
           (\<lambda>abortSignal. queryFunction version mergedOptions abortSignal) mergedOptions now)"

definition publicIpv4 ::
  "constants \<Rightarrow> world \<Rightarrow> options \<Rightarrow> nat \<Rightarrow> string promise completion \<times> calls" where
  "publicIpv4 C W = createIpFunction C ''v4'' (nodeQueryFunction C W)"

definition publicIpv6 ::
  "constants \<Rightarrow> world \<Rightarrow> options \<Rightarrow> nat \<Rightarrow> string promise completion \<times> calls" where
  "publicIpv6 C W = createIpFunction C ''v6'' (nodeQueryFunction C W)"

section \<open>Either family\<close>





section \<open>The failure observed last\<close>

text \<open>
  The spec calls the cause that a failed race reports the most recently observed failure.
  \<open>last_observed ps\<close> is that failure, by the spec's words: the reason of the promise of
  \<open>ps\<close> that rejects last (the later one in the list when two reject at the same instant).
\<close>

fun last_rejection :: "'a promise list \<Rightarrow> (nat \<times> jsval) option" where
  "last_rejection [] = None"
| "last_rejection (Rejected t e # ps) =
     (case last_rejection ps of
        None \<Rightarrow> Some (t, e)
      | Some (t', e') \<Rightarrow> if t \<le> t' then Some (t', e') else Some (t, e))"
| "last_rejection (Pending # ps) = last_rejection ps"
| "last_rejection (Fulfilled t v # ps) = last_rejection ps"

definition last_observed :: "'a promise list \<Rightarrow> jsval option" where
  "last_observed ps = map_option snd (last_rejection ps)"

section \<open>Example runs\<close>

text \<open>
  Constants and networks for concrete runs: two resolver groups and two built-in URLs per
  family, a network in which some candidates answer and one in which none gives an address.
\<close>

definition example_constants :: constants where
  "example_constants =
     \<lparr> dnsServers =
         [\<lambda>version. \<lparr> servers = [''208.67.222.222'', ''208.67.220.220''],
                       name = ''myip.opendns.com'',
                       type = (if version = ''v6'' then ''AAAA'' else ''A''),
                       transform = None \<rparr>,
          \<lambda>version. \<lparr> servers = [''216.239.32.10''],
                       name = ''o-o.myaddr.l.google.com'',
                       type = ''TXT'',
                       transform = Some (\<lambda>ip. Some (filter (\<lambda>c. c \<noteq> CHR 0x22) ip)) \<rparr>],
       httpsUrls = (\<lambda>version. if version = ''v6''
                      then [''https://icanhazip.com/'', ''https://api6.ipify.org/'']
                      else [''https://icanhazip.com/'', ''https://api.ipify.org/'']),
       defaults = \<lparr> timeout = None, signal = None, onlyHttps = Some False, fallbackUrls = None \<rparr> \<rparr>"

definition text_response :: "nat \<Rightarrow> string \<Rightarrow> fetch_result" where
  "text_response d s =
     FetchResponse \<lparr> ok = True, status = 200, statusText = ''OK'', body = Some (d, BodyText s) \<rparr>"

definition example_query ::
  "string \<Rightarrow> string \<Rightarrow> string \<Rightarrow> string \<Rightarrow> nat \<Rightarrow> (nat \<times> dns_result) option" where
  "example_query sock server qname qtype now =
     (if qtype = ''TXT'' then Some (20, DnsAnswers [CHR 0x22 # ''203.0.113.20'' @ [CHR 0x22]])
      else if qtype = ''A'' \<and> server = ''208.67.222.222''
      then Some (30, DnsAnswers [''203.0.113.10''])
      else Some (10, DnsError (Error ''DNS record not found'')))"

definition failing_query ::
  "string \<Rightarrow> string \<Rightarrow> string \<Rightarrow> string \<Rightarrow> nat \<Rightarrow> (nat \<times> dns_result) option" where
  "failing_query sock server qname qtype now =
     (if qtype = ''TXT'' then Some (20, DnsAnswers [])
      else Some (10, DnsError (Error ''DNS record not found'')))"

definition example_fetch :: "string \<Rightarrow> nat \<Rightarrow> (nat \<times> fetch_result) option" where
  "example_fetch url now =
     (if url = ''https://icanhazip.com/'' then Some (5, text_response 2 (''203.0.113.10'' @ [CHR 0x0A]))
      else if url = ''https://api.ipify.org/''
      then Some (3, FetchResponse \<lparr> ok = False, status = 503,
                     statusText = ''Service Unavailable'', body = None \<rparr>)
      else if url = ''https://ifconfig.co/ip'' then Some (4, text_response 1 ''198.51.100.1'')
      else None)"

definition failing_fetch :: "string \<Rightarrow> nat \<Rightarrow> (nat \<times> fetch_result) option" where
  "failing_fetch url now =
     (if url = ''https://icanhazip.com/'' then Some (9, FetchError (Error ''Mocked network error''))
      else Some (2, text_response 0 ''invalid-ip-address''))"

definition no_options :: options where
  "no_options = \<lparr> timeout = None, signal = None, onlyHttps = None, fallbackUrls = None \<rparr>"

section \<open>Properties of the address predicates\<close>

lemma after_Many1:
  assumes "t \<in> set (after (Many1 cs) s)"
  shows "\<exists>u. s = u @ t \<and> u \<noteq> [] \<and> set u \<subseteq> set cs"
proof -
  from assms obtain n
    where n: "1 \<le> n" "n \<le> length (takeWhile (\<lambda>c. c \<in> set cs) s)" "t = drop n s"
    by auto
  let ?u = "take n s"
  have "length (takeWhile (\<lambda>c. c \<in> set cs) s) \<le> length s"
    by (rule length_takeWhile_le)
  with n have "?u \<noteq> []" by auto
  moreover have "set ?u \<subseteq> set cs"
  proof -
    have "take n s = take n (takeWhile (\<lambda>c. c \<in> set cs) s)"
      using n(2) by (metis takeWhile_dropWhile_id take_append diff_is_0_eq' take0 append_Nil2)
    then have "set (take n s) \<subseteq> set (takeWhile (\<lambda>c. c \<in> set cs) s)"
      by (metis set_take_subset)
    then show ?thesis using set_takeWhileD by fastforce
  qed
  ultimately show ?thesis using n(3) by (metis append_take_drop_id)
qed

lemma after_suffix: "t \<in> set (after r s) \<Longrightarrow> \<exists>u. s = u @ t"
proof (induction r arbitrary: s t)
  case (Many1 cs)
  then show ?case using after_Many1 by blast
next
  case (Seq r1 r2)
  then obtain m where "m \<in> set (after r1 s)" "t \<in> set (after r2 m)" by auto
  with Seq.IH show ?case by (metis append.assoc)
qed (auto split: list.splits if_splits)

lemma after_avoids:
  "avoids c r \<Longrightarrow> t \<in> set (after r s) \<Longrightarrow> \<exists>u. s = u @ t \<and> c \<notin> set u"
proof (induction r arbitrary: s t)
  case Eps
  then show ?case by simp
next
  case (Cls cs)
  then show ?case by (cases s) (auto split: if_splits)
next
  case (Many1 cs)
  then show ?case using after_Many1[of t cs s] by auto
next
  case (Seq r1 r2)
  from Seq.prems obtain m where m: "m \<in> set (after r1 s)" "t \<in> set (after r2 m)" by auto
  from Seq.IH(1)[OF _ m(1)] Seq.prems obtain u1 where "s = u1 @ m" "c \<notin> set u1" by auto
  moreover from Seq.IH(2)[OF _ m(2)] Seq.prems obtain u2 where "m = u2 @ t" "c \<notin> set u2"
    by auto
  ultimately have "s = (u1 @ u2) @ t \<and> c \<notin> set (u1 @ u2)" by simp
  then show ?case by blast
next
  case (Alt r1 r2)
  then show ?case by auto
qed

lemma after_needs:
  "needs c r \<Longrightarrow> t \<in> set (after r s) \<Longrightarrow> \<exists>u. s = u @ t \<and> c \<in> set u"
proof (induction r arbitrary: s t)
  case Eps
  then show ?case by simp
next
  case (Cls cs)
  then show ?case by (cases s) (auto split: if_splits)
next
  case (Many1 cs)
  from after_Many1[OF Many1.prems(2)]
  obtain u where u: "s = u @ t" "u \<noteq> []" "set u \<subseteq> set cs" by blast
  from Many1.prems(1) have "set cs = {c}" by simp
  with u(2,3) have "c \<in> set u" by (cases u) auto
  with u(1) show ?case by blast
next
  case (Seq r1 r2)
  from Seq.prems obtain m where m: "m \<in> set (after r1 s)" "t \<in> set (after r2 m)" by auto
  from Seq.prems(1) consider "needs c r1" | "needs c r2" by auto
  then show ?case
  proof cases
    case 1
    from Seq.IH(1)[OF 1 m(1)] obtain u1 where "s = u1 @ m" "c \<in> set u1" by auto
    moreover from after_suffix[OF m(2)] obtain u2 where "m = u2 @ t" by auto
    ultimately have "s = (u1 @ u2) @ t \<and> c \<in> set (u1 @ u2)" by simp
    then show ?thesis by blast
  next
    case 2
    from Seq.IH(2)[OF 2 m(2)] obtain u2 where "m = u2 @ t" "c \<in> set u2" by auto
    moreover from after_suffix[OF m(1)] obtain u1 where "s = u1 @ m" by auto
    ultimately have "s = (u1 @ u2) @ t \<and> c \<in> set (u1 @ u2)" by simp
    then show ?thesis by blast
  qed
next
  case (Alt r1 r2)
  then show ?case by auto
qed

lemma avoids_colon_IPv4Reg: "avoids CHR '':'' IPv4Reg"
  by (simp add: IPv4Reg_def v4Str_def v4Seg_def digit_def opt_def eval_nat_numeral)

lemma needs_dot_IPv4Reg: "needs CHR ''.'' IPv4Reg"
  by (simp add: IPv4Reg_def v4Str_def eval_nat_numeral)

lemma needs_colon_IPv6Reg: "needs CHR '':'' IPv6Reg"
  by (simp add: IPv6Reg_def v6Alternatives_def segs_colon_def colon_def eval_nat_numeral)

lemma isIPv4_no_colon: "isIPv4 s \<Longrightarrow> CHR '':'' \<notin> set s"
  using after_avoids[OF avoids_colon_IPv4Reg, of "[]" s] by (auto simp: isIPv4_def test_def)

lemma isIPv6_colon: "isIPv6 s \<Longrightarrow> CHR '':'' \<in> set s"
  using after_needs[OF needs_colon_IPv6Reg, of "[]" s] by (auto simp: isIPv6_def test_def)

lemma isIPv4_not_isIPv6: "isIPv4 s \<Longrightarrow> \<not> isIPv6 s"
  using isIPv4_no_colon isIPv6_colon by blast

lemma isIPv4_nonempty: "isIPv4 s \<Longrightarrow> s \<noteq> []"
  using after_needs[OF needs_dot_IPv4Reg, of "[]" s] by (auto simp: isIPv4_def test_def)

lemma isIPv6_nonempty: "isIPv6 s \<Longrightarrow> s \<noteq> []"
  using isIPv6_colon by fastforce

section \<open>Properties of the validator\<close>

text \<open>
  C7. \<open>validateIp\<close> returns true only for a string that is not empty and that the address
  predicate of the requested family accepts. A string that \<open>isIPv4\<close> accepts validates for
  \<open>v4\<close> and not for \<open>v6\<close>, a string that \<open>isIPv6\<close> accepts validates for \<open>v6\<close> and not for
  \<open>v4\<close>, and no string validates for both families.
\<close>

theorem validateIp_sound_and_exclusive:
  "(validateIp s f \<longrightarrow> s \<noteq> [] \<and> (if f = Str ''v6'' then isIPv6 s else isIPv4 s))
   \<and> (isIPv4 s \<longrightarrow> validateIp s (Str ''v4'') \<and> \<not> validateIp s (Str ''v6''))
   \<and> (isIPv6 s \<longrightarrow> validateIp s (Str ''v6'') \<and> \<not> validateIp s (Str ''v4''))
   \<and> \<not> (validateIp s (Str ''v4'') \<and> validateIp s (Str ''v6''))"
proof -
  have sound: "validateIp s f \<longrightarrow> s \<noteq> [] \<and> (if f = Str ''v6'' then isIPv6 s else isIPv4 s)"
    by (simp add: validateIp_def)
  have v4: "isIPv4 s \<longrightarrow> validateIp s (Str ''v4'') \<and> \<not> validateIp s (Str ''v6'')"
    using isIPv4_nonempty[of s] isIPv4_not_isIPv6[of s] by (simp add: validateIp_def)
  have v6: "isIPv6 s \<longrightarrow> validateIp s (Str ''v6'') \<and> \<not> validateIp s (Str ''v4'')"
    using isIPv6_nonempty[of s] isIPv4_not_isIPv6[of s] by (auto simp: validateIp_def)
  have both: "\<not> (validateIp s (Str ''v4'') \<and> validateIp s (Str ''v6''))"
    using isIPv4_not_isIPv6[of s] by (simp add: validateIp_def)
  from sound v4 v6 both show ?thesis by blast
qed

theorem validateIp_sound_and_exclusive_witness:
  "isIPv4 ''203.0.113.10'' \<and> validateIp ''203.0.113.10'' (Str ''v4'')
   \<and> \<not> validateIp ''203.0.113.10'' (Str ''v6'')
   \<and> isIPv6 ''2001:db8::1'' \<and> validateIp ''2001:db8::1'' (Str ''v6'')
   \<and> \<not> validateIp ''2001:db8::1'' (Str ''v4'')"
proof -
  have a: "isIPv4 ''203.0.113.10''" by code_simp
  have b: "isIPv6 ''2001:db8::1''" by code_simp
  from a b
    validateIp_sound_and_exclusive[of "''203.0.113.10''" "Str ''v4''"]
    validateIp_sound_and_exclusive[of "''2001:db8::1''" "Str ''v6''"]
  show ?thesis by blast
qed

text \<open>
  C10. Whatever the family argument is, as long as it is not the string \<open>v6\<close> (the string
  \<open>v4\<close>, \<open>undefined\<close>, \<open>null\<close>, a number, another string), \<open>validateIp\<close> answers as it
  does for \<open>v4\<close>.
\<close>

theorem validateIp_defaults_to_v4:
  "f \<noteq> Str ''v6'' \<Longrightarrow> validateIp s f = validateIp s (Str ''v4'')"
  by (simp add: validateIp_def)

theorem validateIp_defaults_to_v4_witness:
  "Undefined \<noteq> Str ''v6'' \<and> validateIp ''203.0.113.10'' Undefined
   \<and> validateIp ''203.0.113.10'' (Str ''v4'')
   \<and> \<not> validateIp ''2001:db8::1'' (Str ''V6'') \<and> validateIp ''2001:db8::1'' (Str ''v6'')"
proof -
  have a: "validateIp ''203.0.113.10'' (Str ''v4'')" by code_simp
  have b: "\<not> validateIp ''2001:db8::1'' (Str ''v4'')" by code_simp
  have c: "validateIp ''2001:db8::1'' (Str ''v6'')" by code_simp
  have d: "Str ''V6'' \<noteq> Str ''v6''" by simp
  from a b c
    validateIp_defaults_to_v4[of Undefined "''203.0.113.10''"]
    validateIp_defaults_to_v4[OF d, of "''2001:db8::1''"]
  show ?thesis by simp
qed

section \<open>Properties of trimming\<close>

lemma avoids_whitespace_IPv4Reg: "isWhiteSpace c \<Longrightarrow> avoids c IPv4Reg"
  by (auto simp: isWhiteSpace_def IPv4Reg_def v4Str_def v4Seg_def digit_def opt_def eval_nat_numeral)

lemma avoids_exactly: "avoids c r \<Longrightarrow> avoids c (exactly n r)"
  by (induction n) auto

lemma avoids_upto_times: "avoids c r \<Longrightarrow> avoids c (upto_times n r)"
  by (induction n) auto

lemma avoids_between: "avoids c r \<Longrightarrow> avoids c (between n m r)"
  by (simp add: between_def avoids_exactly avoids_upto_times)

lemma avoids_whitespace_v4Str: "isWhiteSpace c \<Longrightarrow> avoids c v4Str"
  using avoids_whitespace_IPv4Reg by (simp add: IPv4Reg_def)

lemma avoids_whitespace_v6Seg: "isWhiteSpace c \<Longrightarrow> avoids c v6Seg"
  unfolding v6Seg_def by (rule avoids_between) (auto simp: isWhiteSpace_def)

lemma avoids_whitespace_colon: "isWhiteSpace c \<Longrightarrow> avoids c colon"
  by (auto simp: isWhiteSpace_def colon_def)

lemma avoids_whitespace_zone: "isWhiteSpace c \<Longrightarrow> avoids c (opt zone)"
  by (auto simp: isWhiteSpace_def zone_def opt_def)

lemma avoids_whitespace_IPv6Reg: "isWhiteSpace c \<Longrightarrow> avoids c IPv6Reg"
  by (simp add: IPv6Reg_def v6Alternatives_def segs_colon_def colon_segs_def
      avoids_exactly avoids_between avoids_whitespace_v4Str avoids_whitespace_v6Seg
      avoids_whitespace_colon avoids_whitespace_zone)

lemma valid_no_whitespace:
  assumes "validateIp ip version" and "c \<in> set ip"
  shows "\<not> isWhiteSpace c"
proof
  assume ws: "isWhiteSpace c"
  have "\<exists>u. ip = u @ [] \<and> c \<notin> set u"
  proof (cases "version = Str ''v6''")
    case True
    with assms(1) have "[] \<in> set (after IPv6Reg ip)"
      by (simp add: validateIp_def isIPv6_def test_def)
    with after_avoids[OF avoids_whitespace_IPv6Reg[OF ws]] show ?thesis by blast
  next
    case False
    with assms(1) have "[] \<in> set (after IPv4Reg ip)"
      by (simp add: validateIp_def isIPv4_def test_def)
    with after_avoids[OF avoids_whitespace_IPv4Reg[OF ws]] show ?thesis by blast
  qed
  with assms(2) show False by simp
qed

lemma trim_padded:
  assumes "ip \<noteq> []" and "\<forall>c\<in>set ip. \<not> isWhiteSpace c"
    and "\<forall>c\<in>set l. isWhiteSpace c" and "\<forall>c\<in>set r. isWhiteSpace c"
  shows "trim (l @ ip @ r) = ip"
proof -
  from assms(1,2) have hd: "\<not> isWhiteSpace (hd ip)" by simp
  from assms(1,2) have lst: "\<not> isWhiteSpace (hd (rev ip))" by (simp add: hd_rev)
  have a: "dropWhile isWhiteSpace (l @ ip @ r) = ip @ r"
    using assms(1,3) hd by (cases ip) (simp_all add: dropWhile_append)
  have b: "dropWhile isWhiteSpace (rev r @ rev ip) = rev ip"
    using assms(1,4) lst by (cases "rev ip") (simp_all add: dropWhile_append)
  from a b show ?thesis by (simp add: trim_def)
qed

lemma abortable_clear:
  assumes "\<forall>ta e. sig = Some (Aborts ta e) \<longrightarrow> t < ta"
  shows "abortable sig now (Fulfilled t v) = Fulfilled t v"
  using assms by (cases "(sig, now, Fulfilled t v)" rule: abortable.cases) auto

text \<open>
  C9. Let \<open>ip\<close> be valid for the family and let \<open>l\<close> and \<open>r\<close> consist of white space. Then
  trimming \<open>l @ ip @ r\<close> gives \<open>ip\<close>. An HTTPS request whose response is \<open>ok\<close> and whose
  body is \<open>l @ ip @ r\<close> fulfils with \<open>ip\<close>, provided that no cancellation fires before the
  body has arrived. A DNS query whose first answer is \<open>l @ ip @ r\<close> fulfils with \<open>ip\<close>,
  provided that the target's \<open>transform\<close>, if it has one, leaves \<open>ip\<close> as it is. For every
  body and every answer, whatever it holds: what is validated and returned is the trimmed
  body, and for DNS what the \<open>transform\<close> makes of the trimmed answer; the candidate rejects
  with \<open>Invalid IP\<close> when that is not valid.
\<close>

theorem lookup_results_are_trimmed:
  assumes "validateIp ip (Str version)"
    and "\<forall>c\<in>set l. isWhiteSpace c" and "\<forall>c\<in>set r. isWhiteSpace c"
  shows
    "trim (l @ ip @ r) = ip
     \<and> (\<forall>W url abortSignal now d d' resp.
          fetch W url now = Some (d, FetchResponse resp) \<and> ok resp
          \<and> body resp = Some (d', BodyText (l @ ip @ r))
          \<and> (\<forall>ta e. abortSignal = Some (Aborts ta e) \<longrightarrow> now + d + d' < ta)
          \<longrightarrow> request W version abortSignal now url = Fulfilled (now + d + d') ip)
     \<and> (\<forall>W server question now d more.
          query W (socketType version) server (name question) (type question) now
            = Some (d, DnsAnswers ((l @ ip @ r) # more))
          \<and> applyTransform (transform question) ip = ip
          \<longrightarrow> createDnsQuery W server version question now = Fulfilled (now + d) ip)
     \<and> (\<forall>W url abortSignal now d d' resp raw.
          fetch W url now = Some (d, FetchResponse resp) \<and> ok resp
          \<and> body resp = Some (d', BodyText raw)
          \<and> (\<forall>ta e. abortSignal = Some (Aborts ta e) \<longrightarrow> now + d + d' < ta)
          \<longrightarrow> request W version abortSignal now url
               = (if validateIp (trim raw) (Str version) then Fulfilled (now + d + d') (trim raw)
                  else Rejected (now + d + d') (Error ''Invalid IP'')))
     \<and> (\<forall>W server question now d raw more.
          query W (socketType version) server (name question) (type question) now
            = Some (d, DnsAnswers (raw # more))
          \<longrightarrow> createDnsQuery W server version question now
               = (if validateIp (applyTransform (transform question) (trim raw)) (Str version)
                  then Fulfilled (now + d) (applyTransform (transform question) (trim raw))
                  else Rejected (now + d) (Error ''Invalid IP'')))"
proof -
  from assms(1) have ne: "ip \<noteq> []" by (simp add: validateIp_def)
  from assms(1) have nows: "\<forall>c\<in>set ip. \<not> isWhiteSpace c"
    using valid_no_whitespace by blast
  have tr: "trim (l @ ip @ r) = ip"
    using trim_padded[OF ne nows assms(2,3)] .
  have https: "request W version abortSignal now url
               = (if validateIp (trim raw) (Str version) then Fulfilled (now + d + d') (trim raw)
                  else Rejected (now + d + d') (Error ''Invalid IP''))"
    if f: "fetch W url now = Some (d, FetchResponse resp)" and o: "ok resp"
      and b: "body resp = Some (d', BodyText raw)"
      and ab: "\<forall>ta e. abortSignal = Some (Aborts ta e) \<longrightarrow> now + d + d' < ta"
    for W url abortSignal now d d' resp raw
  proof -
    from ab have ab1: "\<forall>ta e. abortSignal = Some (Aborts ta e) \<longrightarrow> now + d < ta" by auto
    have fs: "fetch_signal W url abortSignal now = Fulfilled (now + d) resp"
      using f abortable_clear[OF ab1] by (simp add: fetch_signal_def)
    have rt: "response_text resp abortSignal (now + d) = Fulfilled (now + d + d') raw"
      using b abortable_clear[OF ab] by (simp add: response_text_def)
    from fs rt o show ?thesis
      by (simp add: request_def await_def Let_def)
  qed
  have dns: "createDnsQuery W server version question now
               = (if validateIp (applyTransform (transform question) (trim raw)) (Str version)
                  then Fulfilled (now + d) (applyTransform (transform question) (trim raw))
                  else Rejected (now + d) (Error ''Invalid IP''))"
    if q: "query W (socketType version) server (name question) (type question) now
            = Some (d, DnsAnswers (raw # more))"
    for W server question now d raw more
    using q by (simp add: createDnsQuery_def socketQuery_def await_def Let_def)
  have https_padded: "request W version abortSignal now url = Fulfilled (now + d + d') ip"
    if "fetch W url now = Some (d, FetchResponse resp)" and "ok resp"
      and "body resp = Some (d', BodyText (l @ ip @ r))"
      and "\<forall>ta e. abortSignal = Some (Aborts ta e) \<longrightarrow> now + d + d' < ta"
    for W url abortSignal now d d' resp
    using https[OF that] tr assms(1) by simp
  have dns_padded: "createDnsQuery W server version question now = Fulfilled (now + d) ip"
    if "query W (socketType version) server (name question) (type question) now
            = Some (d, DnsAnswers ((l @ ip @ r) # more))"
      and "applyTransform (transform question) ip = ip"
    for W server question now d more
    using dns[OF that(1)] that(2) tr assms(1) by simp
  have c2: "\<forall>W url abortSignal now d d' resp.
          fetch W url now = Some (d, FetchResponse resp) \<and> ok resp
          \<and> body resp = Some (d', BodyText (l @ ip @ r))
          \<and> (\<forall>ta e. abortSignal = Some (Aborts ta e) \<longrightarrow> now + d + d' < ta)
          \<longrightarrow> request W version abortSignal now url = Fulfilled (now + d + d') ip"
    using https_padded by blast
  have c3: "\<forall>W server question now d more.
          query W (socketType version) server (name question) (type question) now
            = Some (d, DnsAnswers ((l @ ip @ r) # more))
          \<and> applyTransform (transform question) ip = ip
          \<longrightarrow> createDnsQuery W server version question now = Fulfilled (now + d) ip"
    using dns_padded by blast
  have c4: "\<forall>W url abortSignal now d d' resp raw.
          fetch W url now = Some (d, FetchResponse resp) \<and> ok resp
          \<and> body resp = Some (d', BodyText raw)
          \<and> (\<forall>ta e. abortSignal = Some (Aborts ta e) \<longrightarrow> now + d + d' < ta)
          \<longrightarrow> request W version abortSignal now url
               = (if validateIp (trim raw) (Str version) then Fulfilled (now + d + d') (trim raw)
                  else Rejected (now + d + d') (Error ''Invalid IP''))"
    using https by blast
  have c5: "\<forall>W server question now d raw more.
          query W (socketType version) server (name question) (type question) now
            = Some (d, DnsAnswers (raw # more))
          \<longrightarrow> createDnsQuery W server version question now
               = (if validateIp (applyTransform (transform question) (trim raw)) (Str version)
                  then Fulfilled (now + d) (applyTransform (transform question) (trim raw))
                  else Rejected (now + d) (Error ''Invalid IP''))"
    using dns by blast
  show ?thesis by (intro conjI; (rule tr c2 c3 c4 c5))
qed

theorem lookup_results_are_trimmed_witness:
  "validateIp ''203.0.113.10'' (Str ''v4'') \<and> validateIp ''203.0.113.20'' (Str ''v4'')
   \<and> isWhiteSpace (CHR 0x20) \<and> isWhiteSpace (CHR 0x0A)
   \<and> trim ('' 203.0.113.10'' @ [CHR 0x0A]) = ''203.0.113.10''
   \<and> request \<lparr>query = example_query, fetch = example_fetch\<rparr> ''v4'' None 100 ''https://icanhazip.com/''
       = Fulfilled 107 ''203.0.113.10''
   \<and> createDnsQuery
        \<lparr>query = (\<lambda>sock server qname qtype now.
                     Some (20, DnsAnswers ['' 203.0.113.20'' @ [CHR 0x0A]])),
          fetch = example_fetch\<rparr>
        ''216.239.32.10'' ''v4'' ((dnsServers example_constants ! 1) ''v4'') 100
       = Fulfilled 120 ''203.0.113.20''"
proof -
  let ?W = "\<lparr>query = example_query, fetch = example_fetch\<rparr>"
  let ?P = "\<lparr>query = (\<lambda>sock server qname qtype now.
                     Some (20, DnsAnswers ['' 203.0.113.20'' @ [CHR 0x0A]])),
             fetch = example_fetch\<rparr>"
  let ?q = "(dnsServers example_constants ! 1) ''v4''"
  have v: "validateIp ''203.0.113.10'' (Str ''v4'')" by code_simp
  have w: "validateIp ''203.0.113.20'' (Str ''v4'')" by code_simp
  have sp: "\<forall>c\<in>set '' ''. isWhiteSpace c" by (simp add: isWhiteSpace_def)
  have lf: "\<forall>c\<in>set [CHR 0x0A]. isWhiteSpace c" by (simp add: isWhiteSpace_def)
  have no: "\<forall>c\<in>set []. isWhiteSpace c" by simp
  let ?resp = "\<lparr> ok = True, status = 200, statusText = ''OK'',
                 body = Some (2, BodyText ([] @ ''203.0.113.10'' @ [CHR 0x0A])) \<rparr>"
  have a: "trim ('' '' @ ''203.0.113.10'' @ [CHR 0x0A]) = ''203.0.113.10''"
    by (rule lookup_results_are_trimmed[OF v sp lf, THEN conjunct1])
  have b: "request ?W ''v4'' None 100 ''https://icanhazip.com/''
      = Fulfilled (100 + 5 + 2) ''203.0.113.10''"
    by (rule lookup_results_are_trimmed[OF v no lf, THEN conjunct2, THEN conjunct1, rule_format,
          where W = ?W and url = "''https://icanhazip.com/''" and abortSignal = None
            and now = 100 and d = 5 and d' = 2 and resp = ?resp])
       (simp add: example_fetch_def text_response_def)
  have c: "createDnsQuery ?P ''216.239.32.10'' ''v4'' ?q 100 = Fulfilled (100 + 20) ''203.0.113.20''"
    by (rule lookup_results_are_trimmed[OF w sp lf, THEN conjunct2, THEN conjunct2,
          THEN conjunct1, rule_format,
          where W = ?P and server = "''216.239.32.10''" and question = ?q
            and now = 100 and d = 20 and more = "[]"])
       (simp add: example_constants_def socketType_def applyTransform_def)
  from v w a b c show ?thesis by (simp add: isWhiteSpace_def)
qed

section \<open>Properties of the candidate races\<close>


lemma first_fulfilled_mem:
  "first_fulfilled ps = Some (t, v) \<Longrightarrow> \<exists>j<length ps. ps ! j = Fulfilled t v"
proof (induction ps arbitrary: t v rule: first_fulfilled.induct)
  case 1 then show ?case by simp
next
  case (2 t0 v0 ps)
  show ?case
  proof (cases "first_fulfilled ps")
    case None
    with 2 show ?thesis by auto
  next
    case (Some a)
    obtain t' v' where a: "a = (t', v')" by (cases a)
    show ?thesis
    proof (cases "t' < t0")
      case True
      with 2 Some a have "t = t'" "v = v'" by auto
      with 2(1)[of t' v'] Some a obtain j where "j < length ps" "ps ! j = Fulfilled t v" by auto
      then have "Suc j < length (Fulfilled t0 v0 # ps) \<and> (Fulfilled t0 v0 # ps) ! Suc j = Fulfilled t v" by simp
      then show ?thesis by blast
    next
      case False
      with 2 Some a have "t = t0" "v = v0" by auto
      then have "0 < length (Fulfilled t0 v0 # ps) \<and> (Fulfilled t0 v0 # ps) ! 0 = Fulfilled t v" by simp
      then show ?thesis by blast
    qed
  qed
next
  case (3 ps)
  then obtain j where "j < length ps" "ps ! j = Fulfilled t v" by auto
  then have "Suc j < length (Pending # ps) \<and> (Pending # ps) ! Suc j = Fulfilled t v" by simp
  then show ?case by blast
next
  case (4 t0 e ps)
  then obtain j where "j < length ps" "ps ! j = Fulfilled t v" by auto
  then have "Suc j < length (Rejected t0 e # ps) \<and> (Rejected t0 e # ps) ! Suc j = Fulfilled t v" by simp
  then show ?case by blast
qed

lemma first_fulfilled_first:
  assumes "i < length ps" "ps ! i = Fulfilled t v"
    and "\<forall>j<length ps. \<forall>t' v'. ps ! j = Fulfilled t' v' \<longrightarrow> t < t' \<or> (t = t' \<and> i \<le> j)"
  shows "first_fulfilled ps = Some (t, v)"
  using assms
proof (induction ps arbitrary: i)
  case Nil then show ?case by simp
next
  case (Cons p ps)
  show ?case
  proof (cases i)
    case 0
    with Cons.prems have p: "p = Fulfilled t v" by simp
    show ?thesis
    proof (cases "first_fulfilled ps")
      case None with p show ?thesis by simp
    next
      case (Some a)
      obtain t' v' where a: "a = (t', v')" by (cases a)
      from first_fulfilled_mem[of ps t' v'] Some a obtain j where j: "j < length ps" "ps ! j = Fulfilled t' v'" by auto
      from Cons.prems(3)[rule_format, of "Suc j" t' v'] j have "t \<le> t'" by auto
      with p Some a show ?thesis by simp
    qed
  next
    case (Suc k)
    with Cons.prems have k: "k < length ps" "ps ! k = Fulfilled t v" by auto
    have rest: "\<forall>j<length ps. \<forall>t' v'. ps ! j = Fulfilled t' v' \<longrightarrow> t < t' \<or> (t = t' \<and> k \<le> j)"
    proof (intro allI impI)
      fix j t' v' assume "j < length ps" "ps ! j = Fulfilled t' v'"
      with Cons.prems(3)[rule_format, of "Suc j" t' v'] Suc show "t < t' \<or> (t = t' \<and> k \<le> j)" by auto
    qed
    from Cons.IH[OF k rest] have tail: "first_fulfilled ps = Some (t, v)" .
    show ?thesis
    proof (cases p)
      case Pending with tail show ?thesis by simp
    next
      case (Rejected t0 e) with tail show ?thesis by simp
    next
      case (Fulfilled t0 v0)
      with Cons.prems(3)[rule_format, of 0 t0 v0] Suc have "t < t0" by auto
      with Fulfilled tail show ?thesis by simp
    qed
  qed
qed

lemma first_fulfilled_le:
  "Fulfilled t v \<in> set ps \<Longrightarrow> \<exists>t' v'. first_fulfilled ps = Some (t', v') \<and> t' \<le> t"
proof (induction ps rule: first_fulfilled.induct)
  case 1
  then show ?case by simp
next
  case (2 t0 v0 ps)
  show ?case
  proof (cases "Fulfilled t v \<in> set ps")
    case True
    with 2 obtain t' v' where "first_fulfilled ps = Some (t', v')" "t' \<le> t" by blast
    then show ?thesis by auto
  next
    case False
    with 2(2) have "t0 = t" by simp
    then show ?thesis by (cases "first_fulfilled ps") auto
  qed
next
  case (3 ps)
  then show ?case by simp
next
  case (4 t0 e ps)
  then show ?case by simp
qed

lemma all_rejected_no_pending:
  "\<forall>p\<in>set ps. \<exists>t e. p = Rejected t e \<Longrightarrow> \<not> list_ex is_pending ps \<and> first_fulfilled ps = None"
  by (induction ps) auto

lemma Promise_any_first:
  assumes "i < length ps" "ps ! i = Fulfilled t v"
    and "\<forall>j<length ps. \<forall>t' v'. ps ! j = Fulfilled t' v' \<longrightarrow> t < t' \<or> (t = t' \<and> i \<le> j)"
  shows "Promise_any now ps = Fulfilled t v"
  using first_fulfilled_first[OF assms] by (simp add: Promise_any_def)

lemma Promise_any_some_fulfilled:
  assumes "i < length ps" and "ps ! i = Fulfilled t v"
  shows "\<exists>t' v'. t' \<le> t \<and> Promise_any now ps = Fulfilled t' v'
           \<and> (\<exists>j<length ps. ps ! j = Fulfilled t' v')"
proof -
  from assms have "Fulfilled t v \<in> set ps" by (metis nth_mem)
  from first_fulfilled_le[OF this] obtain t' v'
    where f: "first_fulfilled ps = Some (t', v')" and le: "t' \<le> t" by blast
  from first_fulfilled_mem[OF f] f le show ?thesis by (auto simp: Promise_any_def)
qed

lemma Promise_any_all_rejected:
  assumes "\<forall>p\<in>set ps. \<exists>t e. p = Rejected t e"
  shows "Promise_any now ps = Rejected (foldr max (map settled_at ps) now) (AggregateError (map reason ps))"
  using all_rejected_no_pending[OF assms] by (simp add: Promise_any_def)



lemma lastError_Aggregate:
  "lastError (AggregateError es) =
     (if es = [] \<or> nullish (last es) then AggregateError es else last es)"
  by (simp add: lastError_def at_last_def Let_def)


lemma or_not_found_Promise_any_all_rejected:
  assumes "\<forall>p\<in>set ps. \<exists>t e. p = Rejected t e"
  shows "or_not_found (Promise_any now ps) =
     Rejected (foldr max (map settled_at ps) now)
       (IpNotFoundError (if ps = [] \<or> nullish (reason (last ps))
                         then AggregateError (map reason ps) else reason (last ps)))"
  using Promise_any_all_rejected[OF assms, of now]
  by (cases "ps = []") (simp_all add: or_not_found_def lastError_Aggregate last_map)


lemma request_valid:
  "request W version sig now url = Fulfilled t ip \<Longrightarrow> validateIp ip (Str version)"
  by (auto simp: request_def await_def Let_def split: promise.splits if_splits)

lemma createDnsQuery_valid:
  "createDnsQuery W server version q now = Fulfilled t ip \<Longrightarrow> validateIp ip (Str version)"
  by (auto simp: createDnsQuery_def await_def Let_def split: promise.splits if_splits list.splits)

lemma requests_valid:
  "i < length (requests W version urls opts sig now) \<Longrightarrow> requests W version urls opts sig now ! i = Fulfilled t ip \<Longrightarrow> validateIp ip (Str version)"
  by (auto simp: requests_def request_valid)

lemma queries_valid:
  "i < length (queries C W version now) \<Longrightarrow> queries C W version now ! i = Fulfilled t ip \<Longrightarrow> validateIp ip (Str version)"
  by (auto simp: queries_def createDnsQuery_valid split: prod.splits)

text \<open>
  C1. Let \<open>race\<close> be the result of \<open>queryHttps\<close> and \<open>ps\<close> its \<open>requests\<close>, or the result of
  \<open>queryDns\<close> and \<open>ps\<close> its \<open>queries\<close>, and let the candidate \<open>ps ! i\<close> fulfil with \<open>ip\<close> at
  \<open>t\<close> (a candidate fulfils when its lookup has produced a string that the validator
  accepts). Then \<open>ip\<close> is valid for the family, and the race fulfils, no later than \<open>t\<close>,
  with the valid address of one of its candidates. If no candidate fulfils before
  \<open>ps ! i\<close>, the race fulfils with \<open>ip\<close> at \<open>t\<close>. Nothing else is assumed of the other
  candidates: they may reject, stay pending or fulfil later.
\<close>

theorem candidate_race_first_valid_wins:
  assumes "i < length ps" and "ps ! i = Fulfilled t ip"
    and "(ps = requests W version urls opts abortSignal now
            \<and> race = fst (queryHttps W version urls opts abortSignal now))
         \<or> (ps = queries C W version now \<and> race = fst (queryDns C W version now))"
  shows
    "validateIp ip (Str version)
     \<and> (\<exists>t' ip'. t' \<le> t \<and> race = Fulfilled t' ip' \<and> validateIp ip' (Str version)
           \<and> (\<exists>j<length ps. ps ! j = Fulfilled t' ip'))
     \<and> ((\<forall>j<length ps. \<forall>t' ip'. ps ! j = Fulfilled t' ip' \<longrightarrow> t < t' \<or> (t = t' \<and> i \<le> j))
           \<longrightarrow> race = Fulfilled t ip)"
proof -
  have race: "race = or_not_found (Promise_any now ps)"
    using assms(3) by (auto simp: queryHttps_def queryDns_def)
  have valid: "validateIp ip' (Str version)" if "j < length ps" "ps ! j = Fulfilled t' ip'" for j t' ip'
    using assms(3) that requests_valid queries_valid by blast
  from Promise_any_some_fulfilled[OF assms(1,2), of now] obtain t' ip' j
    where some: "t' \<le> t" "Promise_any now ps = Fulfilled t' ip'" "j < length ps" "ps ! j = Fulfilled t' ip'"
    by blast
  have a: "validateIp ip (Str version)"
    using valid[OF assms(1,2)] .
  have b: "\<exists>t' ip'. t' \<le> t \<and> race = Fulfilled t' ip' \<and> validateIp ip' (Str version)
            \<and> (\<exists>j<length ps. ps ! j = Fulfilled t' ip')"
    using some valid[OF some(3,4)] race by (auto simp: or_not_found_def)
  have c: "(\<forall>j<length ps. \<forall>t' ip'. ps ! j = Fulfilled t' ip' \<longrightarrow> t < t' \<or> (t = t' \<and> i \<le> j))
            \<longrightarrow> race = Fulfilled t ip"
    using Promise_any_first[OF assms(1,2), of now] race by (simp add: or_not_found_def)
  from a b c show ?thesis by (intro conjI)
qed

theorem candidate_race_first_valid_wins_witness:
  "requests \<lparr>query = example_query, fetch = example_fetch\<rparr> ''v4'' (httpsUrls example_constants ''v4'')
      (no_options\<lparr>fallbackUrls := Some [''https://ifconfig.co/ip'']\<rparr>) None 100
     = [Fulfilled 107 ''203.0.113.10'', Rejected 103 (Error ''HTTP 503: Service Unavailable''),
        Fulfilled 105 ''198.51.100.1'']
   \<and> fst (queryHttps \<lparr>query = example_query, fetch = example_fetch\<rparr> ''v4''
        (httpsUrls example_constants ''v4'')
        (no_options\<lparr>fallbackUrls := Some [''https://ifconfig.co/ip'']\<rparr>) None 100)
     = Fulfilled 105 ''198.51.100.1''
   \<and> validateIp ''198.51.100.1'' (Str ''v4'')
   \<and> queries example_constants \<lparr>query = example_query, fetch = example_fetch\<rparr> ''v4'' 100
     = [Fulfilled 130 ''203.0.113.10'', Rejected 110 (Error ''DNS record not found''),
        Fulfilled 120 ''203.0.113.20'']
   \<and> fst (queryDns example_constants \<lparr>query = example_query, fetch = example_fetch\<rparr> ''v4'' 100)
     = Fulfilled 120 ''203.0.113.20''"
proof -
  let ?W = "\<lparr>query = example_query, fetch = example_fetch\<rparr>"
  let ?opts = "no_options\<lparr>fallbackUrls := Some [''https://ifconfig.co/ip'']\<rparr>"
  let ?urls = "httpsUrls example_constants ''v4''"
  let ?ps = "[Fulfilled 107 ''203.0.113.10'', Rejected 103 (Error ''HTTP 503: Service Unavailable''),
        Fulfilled 105 ''198.51.100.1'']"
  let ?qs = "[Fulfilled 130 ''203.0.113.10'', Rejected 110 (Error ''DNS record not found''),
        Fulfilled 120 ''203.0.113.20'']"
  have ps: "?ps = requests ?W ''v4'' ?urls ?opts None 100"
    by code_simp
  have qs: "?qs = queries example_constants ?W ''v4'' 100"
    by code_simp
  have ip: "2 < length ?ps" and iq: "2 < length ?qs" by simp_all
  have atp: "?ps ! 2 = Fulfilled 105 ''198.51.100.1''"
    and atq: "?qs ! 2 = Fulfilled 120 ''203.0.113.20''" by simp_all
  have firstp: "\<forall>j<length ?ps. \<forall>t' ip'. ?ps ! j = Fulfilled t' ip' \<longrightarrow>
                 105 < t' \<or> (105 = t' \<and> 2 \<le> j)"
    by (simp add: nth_Cons' less_Suc_eq eval_nat_numeral)
  have firstq: "\<forall>j<length ?qs. \<forall>t' ip'. ?qs ! j = Fulfilled t' ip' \<longrightarrow>
                 120 < t' \<or> (120 = t' \<and> 2 \<le> j)"
    by (simp add: nth_Cons' less_Suc_eq eval_nat_numeral)
  from candidate_race_first_valid_wins[OF ip atp disjI1[OF conjI[OF ps refl]]] firstp
  have a: "validateIp ''198.51.100.1'' (Str ''v4'')
      \<and> fst (queryHttps ?W ''v4'' ?urls ?opts None 100) = Fulfilled 105 ''198.51.100.1''"
    by blast
  from candidate_race_first_valid_wins[OF iq atq disjI2[OF conjI[OF qs refl]]] firstq
  have b: "fst (queryDns example_constants ?W ''v4'' 100) = Fulfilled 120 ''203.0.113.20''"
    by blast
  from a b ps qs show ?thesis by simp
qed

text \<open>
  C3, with the cause that the code reports. When every candidate of a race (the \<open>requests\<close>
  of \<open>queryHttps\<close>, the \<open>queries\<close> of \<open>queryDns\<close>) has rejected, the race rejects
  with an \<open>IpNotFoundError\<close> at the instant of the last rejection. Its cause is the
  rejection reason of the candidate that stands last in the list of candidates, whenever
  that candidate rejected; it is the \<open>AggregateError\<close> itself when there is no candidate or
  when that reason is \<open>undefined\<close> or \<open>null\<close>.
\<close>

theorem candidate_race_all_failed:
  assumes "(ps = requests W version urls opts abortSignal now
            \<and> race = fst (queryHttps W version urls opts abortSignal now))
         \<or> (ps = queries C W version now \<and> race = fst (queryDns C W version now))"
    and "\<forall>p\<in>set ps. \<exists>t e. p = Rejected t e"
  shows
    "race = Rejected (foldr max (map settled_at ps) now)
              (IpNotFoundError
                 (if ps = [] \<or> nullish (reason (last ps))
                  then AggregateError (map reason ps) else reason (last ps)))"
proof -
  have "race = or_not_found (Promise_any now ps)"
    using assms(1) by (auto simp: queryHttps_def queryDns_def)
  with or_not_found_Promise_any_all_rejected[OF assms(2), of now] show ?thesis by simp
qed

theorem candidate_race_all_failed_witness:
  "requests \<lparr>query = failing_query, fetch = failing_fetch\<rparr> ''v4''
      (httpsUrls example_constants ''v4'') no_options None 100
     = [Rejected 109 (Error ''Mocked network error''), Rejected 102 (Error ''Invalid IP'')]
   \<and> fst (queryHttps \<lparr>query = failing_query, fetch = failing_fetch\<rparr> ''v4''
        (httpsUrls example_constants ''v4'') no_options None 100)
     = Rejected 109 (IpNotFoundError (Error ''Invalid IP''))
   \<and> queries example_constants \<lparr>query = failing_query, fetch = failing_fetch\<rparr> ''v4'' 100
     = [Rejected 110 (Error ''DNS record not found''),
        Rejected 110 (Error ''DNS record not found''), Rejected 120 TypeError]
   \<and> fst (queryDns example_constants \<lparr>query = failing_query, fetch = failing_fetch\<rparr> ''v4'' 100)
     = Rejected 120 (IpNotFoundError TypeError)"
proof -
  let ?W = "\<lparr>query = failing_query, fetch = failing_fetch\<rparr>"
  let ?urls = "httpsUrls example_constants ''v4''"
  let ?ps = "[Rejected 109 (Error ''Mocked network error''), Rejected 102 (Error ''Invalid IP'')]
               :: string promise list"
  let ?qs = "[Rejected 110 (Error ''DNS record not found''),
        Rejected 110 (Error ''DNS record not found''), Rejected 120 TypeError] :: string promise list"
  have ps: "?ps = requests ?W ''v4'' ?urls no_options None 100"
    by code_simp
  have qs: "?qs = queries example_constants ?W ''v4'' 100"
    by code_simp
  have allp: "\<forall>p\<in>set ?ps. \<exists>t e. p = Rejected t e" by simp
  have allq: "\<forall>p\<in>set ?qs. \<exists>t e. p = Rejected t e" by simp
  from candidate_race_all_failed[OF disjI1[OF conjI[OF ps refl]] allp]
  have a: "fst (queryHttps ?W ''v4'' ?urls no_options None 100)
      = Rejected 109 (IpNotFoundError (Error ''Invalid IP''))"
    by simp
  from candidate_race_all_failed[OF disjI2[OF conjI[OF qs refl]] allq]
  have b: "fst (queryDns example_constants ?W ''v4'' 100) = Rejected 120 (IpNotFoundError TypeError)"
    by simp
  from a b ps qs show ?thesis by simp
qed

text \<open>
  The cause is not the failure observed last. Of the two built-in URLs below, the first
  fails at 109 with a network error and the second at 102 with an invalid address; the
  race reports the invalid address of the second.
\<close>

theorem last_observed_cause_counterexample:
  "requests \<lparr>query = failing_query, fetch = failing_fetch\<rparr> ''v4''
      (httpsUrls example_constants ''v4'') no_options None 100
     = [Rejected 109 (Error ''Mocked network error''), Rejected 102 (Error ''Invalid IP'')]
   \<and> last_observed (requests \<lparr>query = failing_query, fetch = failing_fetch\<rparr> ''v4''
        (httpsUrls example_constants ''v4'') no_options None 100)
     = Some (Error ''Mocked network error'')
   \<and> fst (queryHttps \<lparr>query = failing_query, fetch = failing_fetch\<rparr> ''v4''
        (httpsUrls example_constants ''v4'') no_options None 100)
     = Rejected 109 (IpNotFoundError (Error ''Invalid IP''))
   \<and> fst (queryHttps \<lparr>query = failing_query, fetch = failing_fetch\<rparr> ''v4''
        (httpsUrls example_constants ''v4'') no_options None 100)
     \<noteq> Rejected 109 (IpNotFoundError (Error ''Mocked network error''))"
  by code_simp

section \<open>Properties of the fallback\<close>





lemma merge_caller_wins:
  "timeout opts = Some a \<Longrightarrow> timeout (merge d opts) = Some a"
  "signal opts = Some b \<Longrightarrow> signal (merge d opts) = Some b"
  "onlyHttps opts = Some c \<Longrightarrow> onlyHttps (merge d opts) = Some c"
  "fallbackUrls opts = Some us \<Longrightarrow> fallbackUrls (merge d opts) = Some us"
  by (simp_all add: merge_def)







text \<open>
  C4. Let the caller set \<open>onlyHttps\<close> to \<open>true\<close>. Then every transport call of the run is a
  \<open>fetch\<close>. Unless the call throws (then it makes no call at all), the calls are the
  \<open>fetch\<close> of the built-in URLs of the family followed by \<open>fallbackUrls\<close>, in this order, the
  requests of the race are the requests to these URLs, and the promise returned is the one
  of this HTTPS race under the cancellation envelope.
\<close>

theorem onlyHttps_never_queries_dns:
  assumes "onlyHttps opts = Some True" and "m = merge (defaults C) opts"
  shows
    "let run = createIpFunction C version (nodeQueryFunction C W) opts now;
         urls = httpsUrls C version @ (case fallbackUrls m of None \<Rightarrow> [] | Some us \<Rightarrow> us)
     in (\<forall>c\<in>set (snd run). \<exists>url. snd c = Fetch url)
      \<and> (fallbackUrls opts \<noteq> None \<longrightarrow> fallbackUrls m = fallbackUrls opts)
      \<and> (\<forall>abortSignal. createAbortSignal (timeout m) (signal m) now = Inr abortSignal \<longrightarrow>
            run = (Returns (withAbortSignal
                     (fst (queryHttps W version (httpsUrls C version) m abortSignal now))
                     abortSignal now),
                   map (\<lambda>url. (now, Fetch url)) urls)
            \<and> requests W version (httpsUrls C version) m abortSignal now
                = map (request W version abortSignal now) urls)
      \<and> (\<forall>thrown. createAbortSignal (timeout m) (signal m) now = Inl thrown \<longrightarrow>
            run = (Throws thrown, []))"
proof -
  let ?run = "createIpFunction C version (nodeQueryFunction C W) opts now"
  let ?urls = "httpsUrls C version @ (case fallbackUrls m of None \<Rightarrow> [] | Some us \<Rightarrow> us)"
  have only: "onlyHttps m = Some True"
    using assms by (simp add: merge_caller_wins)
  have fb: "fallbackUrls opts \<noteq> None \<longrightarrow> fallbackUrls m = fallbackUrls opts"
    using assms(2) by (auto simp: merge_def)
  have thrown: "createAbortSignal (timeout m) (signal m) now = Inl thrown \<longrightarrow>
            ?run = (Throws thrown, [])" for thrown
    using assms(2) by (simp add: createIpFunction_def createQuery_def Let_def)
  have ret: "createAbortSignal (timeout m) (signal m) now = Inr abortSignal \<longrightarrow>
            ?run = (Returns (withAbortSignal
                     (fst (queryHttps W version (httpsUrls C version) m abortSignal now))
                     abortSignal now),
                   map (\<lambda>url. (now, Fetch url)) ?urls)
            \<and> requests W version (httpsUrls C version) m abortSignal now
                = map (request W version abortSignal now) ?urls" for abortSignal
    using assms(2) only
    by (simp add: createIpFunction_def createQuery_def Let_def nodeQueryFunction_def
        queryHttps_def urlList_def requests_def)
  have calls: "\<forall>c\<in>set (snd ?run). \<exists>url. snd c = Fetch url"
  proof (cases "createAbortSignal (timeout m) (signal m) now")
    case (Inl thrown)
    with thrown[of thrown] show ?thesis by simp
  next
    case (Inr abortSignal)
    with ret[of abortSignal] show ?thesis by auto
  qed
  from calls fb ret thrown show ?thesis unfolding Let_def by blast
qed

theorem onlyHttps_never_queries_dns_witness:
  "onlyHttps (no_options\<lparr>onlyHttps := Some True, fallbackUrls := Some [''https://ifconfig.co/ip'']\<rparr>)
     = Some True
   \<and> publicIpv4 example_constants \<lparr>query = example_query, fetch = example_fetch\<rparr>
       (no_options\<lparr>onlyHttps := Some True, fallbackUrls := Some [''https://ifconfig.co/ip'']\<rparr>) 100
     = (Returns (Fulfilled 105 ''198.51.100.1''),
        [(100, Fetch ''https://icanhazip.com/''), (100, Fetch ''https://api.ipify.org/''),
         (100, Fetch ''https://ifconfig.co/ip'')])"
proof -
  let ?opts = "no_options\<lparr>onlyHttps := Some True, fallbackUrls := Some [''https://ifconfig.co/ip'']\<rparr>"
  let ?m = "merge (defaults example_constants) ?opts"
  let ?W = "\<lparr>query = example_query, fetch = example_fetch\<rparr>"
  have only: "onlyHttps ?opts = Some True" by simp
  have none: "createAbortSignal (timeout ?m) (signal ?m) 100 = Inr None" by code_simp
  have https: "fst (queryHttps ?W ''v4'' (httpsUrls example_constants ''v4'') ?m None 100)
      = Fulfilled 105 ''198.51.100.1''" by code_simp
  have urls: "httpsUrls example_constants ''v4'' @ (case fallbackUrls ?m of None \<Rightarrow> [] | Some us \<Rightarrow> us)
      = [''https://icanhazip.com/'', ''https://api.ipify.org/'', ''https://ifconfig.co/ip'']"
    by code_simp
  from onlyHttps_never_queries_dns[OF only refl, of example_constants "''v4''" ?W 100]
  have "createIpFunction example_constants ''v4'' (nodeQueryFunction example_constants ?W) ?opts 100
      = (Returns (withAbortSignal
                     (fst (queryHttps ?W ''v4'' (httpsUrls example_constants ''v4'') ?m None 100))
                     None 100),
         map (\<lambda>url. (100, Fetch url))
           (httpsUrls example_constants ''v4'' @ (case fallbackUrls ?m of None \<Rightarrow> [] | Some us \<Rightarrow> us)))"
    using none unfolding Let_def by blast
  with https urls only show ?thesis
    by (simp add: publicIpv4_def withAbortSignal_def)
qed

section \<open>Properties of the cancellation envelope\<close>















text \<open>
  C6. If the signal that the caller supplies is already aborted when \<open>publicIpv4\<close> or
  \<open>publicIpv6\<close> is called, the call throws the reason of the signal and makes no transport
  call.
\<close>

theorem aborted_signal_throws_before_any_request:
  assumes "signal opts = Some s" and "aborted s now"
  shows "publicIpv4 C W opts now = (Throws (signal_reason s), [])
       \<and> publicIpv6 C W opts now = (Throws (signal_reason s), [])"
  using assms
  by (simp add: publicIpv4_def publicIpv6_def createIpFunction_def createQuery_def
      createAbortSignal_def merge_caller_wins Let_def)

theorem aborted_signal_throws_before_any_request_witness:
  "aborted (Aborts 40 (Error ''cancelled by the caller'')) 100
   \<and> publicIpv4 example_constants \<lparr>query = example_query, fetch = example_fetch\<rparr>
       (no_options\<lparr>signal := Some (Aborts 40 (Error ''cancelled by the caller''))\<rparr>) 100
     = (Throws (Error ''cancelled by the caller''), [])
   \<and> publicIpv6 example_constants \<lparr>query = example_query, fetch = example_fetch\<rparr>
       (no_options\<lparr>signal := Some (Aborts 40 (Error ''cancelled by the caller''))\<rparr>) 100
     = (Throws (Error ''cancelled by the caller''), [])"
proof -
  let ?s = "Aborts 40 (Error ''cancelled by the caller'')"
  have a: "signal (no_options\<lparr>signal := Some ?s\<rparr>) = Some ?s" by simp
  have b: "aborted ?s 100" by simp
  from aborted_signal_throws_before_any_request[OF a b] b show ?thesis by simp
qed

section \<open>Properties of the lookup of either family\<close>



end
